theory Spec2Isabelle
  imports Main
begin

section \<open>Python values and exceptions\<close>

text \<open>
  The notebook \<^verbatim>\<open>notebooks/data_exploration.ipynb\<close> reads the raw pages of court
  decisions, collects their records and explores two list-valued columns. Python
  raises where HOL cannot, so every operation that can raise returns a sum: \<open>Inl\<close>
  carries the exception, \<open>Inr\<close> the value. An exception carries the text that
  \<^verbatim>\<open>str(e)\<close> gives.
\<close>

datatype py_exception =
    OSError string
  | ValueError string
  | AttributeError string
  | TypeError string
  | KeyError string

fun str_exc :: "py_exception \<Rightarrow> string" where
  "str_exc (OSError m) = m"
| "str_exc (ValueError m) = m"
| "str_exc (AttributeError m) = m"
| "str_exc (TypeError m) = m"
| "str_exc (KeyError m) = m"

text \<open>
  What \<^verbatim>\<open>json.load\<close> returns: \<^verbatim>\<open>None\<close>, a bool, an int, a float (kept as the
  text of its literal: nothing here computes with it), a str, a list or a dict. A
  dict is the list of its items in insertion order; \<^verbatim>\<open>json.load\<close> keeps one value
  per key, so the keys of a \<open>JObj\<close> it built are distinct.
\<close>

datatype json =
    JNull
  | JBool bool
  | JInt int
  | JFloat string
  | JStr string
  | JArr "json list"
  | JObj "(string \<times> json) list"

fun type_name :: "json \<Rightarrow> string" where
  "type_name JNull = ''NoneType''"
| "type_name (JBool b) = ''bool''"
| "type_name (JInt i) = ''int''"
| "type_name (JFloat f) = ''float''"
| "type_name (JStr s) = ''str''"
| "type_name (JArr xs) = ''list''"
| "type_name (JObj kvs) = ''dict''"

definition quoted :: "string \<Rightarrow> string" where
  "quoted s = [CHR 0x27] @ s @ [CHR 0x27]"

text \<open>
  \<^verbatim>\<open>data.get("items", [])\<close>: only a dict has the method \<^verbatim>\<open>get\<close>; on any other
  value the attribute lookup raises AttributeError. A dict without the key gives the
  default, the empty list.
\<close>

fun get_items :: "json \<Rightarrow> py_exception + json" where
  "get_items (JObj kvs) =
     Inr (case map_of kvs ''items'' of Some v \<Rightarrow> v | None \<Rightarrow> JArr [])"
| "get_items v =
     Inl (AttributeError (quoted (type_name v) @ '' object has no attribute '' @ quoted ''get''))"

text \<open>
  \<^verbatim>\<open>for item in v\<close>: a list yields its elements, a str its characters (each a str
  of length one), a dict its keys; \<^verbatim>\<open>None\<close>, bools and numbers are not iterable.
\<close>

fun py_iter :: "json \<Rightarrow> py_exception + json list" where
  "py_iter (JArr xs) = Inr xs"
| "py_iter (JStr s) = Inr (map (\<lambda>c. JStr [c]) s)"
| "py_iter (JObj kvs) = Inr (map (\<lambda>kv. JStr (fst kv)) kvs)"
| "py_iter v = Inl (TypeError (quoted (type_name v) @ '' object is not iterable''))"

section \<open>flatten\<close>

text \<open>
  \<^verbatim>\<open>
  def flatten(xss):
      """Flattens a list of lists."""
      return [x for xs in xss for x in xs]
  \<close>
  The comprehension is two nested loops that append to one result list. The outer
  loop iterates the elements of \<open>xss\<close>, the inner loop iterates each element; what
  iterating an element gives is the parameter \<open>it\<close>, since the elements are whatever
  the caller put in the list. The first element that is not iterable raises and no
  list is returned.
\<close>

fun flatten_loop ::
  "('c \<Rightarrow> py_exception + 'a list) \<Rightarrow> 'a list \<Rightarrow> 'c list \<Rightarrow> py_exception + 'a list" where
  "flatten_loop it acc [] = Inr acc"
| "flatten_loop it acc (xs # xss) =
     (case it xs of
        Inl e \<Rightarrow> Inl e
      | Inr ys \<Rightarrow> flatten_loop it (foldl (\<lambda>a x. a @ [x]) acc ys) xss)"

definition flatten :: "('c \<Rightarrow> py_exception + 'a list) \<Rightarrow> 'c list \<Rightarrow> py_exception + 'a list" where
  "flatten it xss = flatten_loop it [] xss"

text \<open>Iterating a list: it yields its elements and never raises.\<close>

definition iter_list :: "'a list \<Rightarrow> py_exception + 'a list" where
  "iter_list xs = Inr xs"

section \<open>extract_unique_refs\<close>

text \<open>
  \<^verbatim>\<open>
  def extract_unique_refs(df: pd.DataFrame) -> set:
      list_of_refs = flatten(list(df["zminenaUstanoveni"]))
      return set(list_of_refs)
  \<close>
  A DataFrame holds labelled columns of equal length; row \<open>i\<close> of the frame is the
  \<open>i\<close>-th cell of every column, and two columns may carry the same label. A cell of
  the column \<^verbatim>\<open>zminenaUstanoveni\<close> is the list of citation strings of that
  decision, a str, \<^verbatim>\<open>None\<close> (a JSON null), or NaN, which pandas stores where a
  record had no such key.
\<close>

datatype cell = ListCell "string list" | StrCell string | NaN | NoneCell

type_synonym dataframe = "(string \<times> cell list) list"

text \<open>
  \<^verbatim>\<open>df[name]\<close>: KeyError when no column has the label, the column as a Series when
  exactly one has it, and the sub-frame of those columns when several have it.
\<close>

datatype selection = Series "cell list" | SubFrame dataframe

definition getitem :: "dataframe \<Rightarrow> string \<Rightarrow> py_exception + selection" where
  "getitem df name =
     (case filter (\<lambda>c. fst c = name) df of
        [] \<Rightarrow> Inl (KeyError (quoted name))
      | [c] \<Rightarrow> Inr (Series (snd c))
      | c # d # cs \<Rightarrow> Inr (SubFrame (c # d # cs)))"

text \<open>
  \<^verbatim>\<open>list(...)\<close> of the selection: a Series yields its cells, a frame yields its
  column labels, each a str.
\<close>

fun py_list :: "selection \<Rightarrow> cell list" where
  "py_list (Series cells) = cells"
| "py_list (SubFrame cols) = map (\<lambda>c. StrCell (fst c)) cols"

text \<open>
  Iterating a cell, as the inner loop of \<open>flatten\<close> does: a list yields its
  strings, a str its characters (each a str of length one); NaN is a float, and
  neither a float nor \<^verbatim>\<open>None\<close> is iterable.
\<close>

fun iter_cell :: "cell \<Rightarrow> py_exception + string list" where
  "iter_cell (ListCell xs) = Inr xs"
| "iter_cell (StrCell s) = Inr (map (\<lambda>c. [c]) s)"
| "iter_cell NaN = Inl (TypeError (quoted ''float'' @ '' object is not iterable''))"
| "iter_cell NoneCell = Inl (TypeError (quoted ''NoneType'' @ '' object is not iterable''))"

definition extract_unique_refs :: "dataframe \<Rightarrow> py_exception + string set" where
  "extract_unique_refs df =
     (case getitem df ''zminenaUstanoveni'' of
        Inl e \<Rightarrow> Inl e
      | Inr selected \<Rightarrow>
          (case flatten iter_cell (py_list selected) of
             Inl e \<Rightarrow> Inl e
           | Inr list_of_refs \<Rightarrow> Inr (set list_of_refs)))"

section \<open>load_all_decisions\<close>

text \<open>
  \<^verbatim>\<open>
  def load_all_decisions(data_dir="../data/raw") -> pd.DataFrame:
      base_path = Path(data_dir)
      records = []
      for json_file in tqdm(base_path.rglob("page*.json"), desc="Loading JSON files"):
          try:
              with open(json_file, "r", encoding="utf-8") as f:
                  data = json.load(f)
              for item in data.get("items", []):
                  records.append(item)
          except Exception as e:
              print(f"Failed to load {json_file}: {e}")
      df = pd.DataFrame(records)
      return df
  \<close>
  The directory is what the function sees of it: the files that
  \<^verbatim>\<open>rglob("page*.json")\<close> yields, in the order it yields them, each with its path and
  with what opening and parsing it does. \<^verbatim>\<open>open\<close> raises OSError, \<^verbatim>\<open>json.load\<close>
  raises a ValueError (JSONDecodeError, UnicodeDecodeError), or the file parses to a
  value.
\<close>

datatype file_result = OpenFails string | ParseFails string | Parsed json

type_synonym directory = "(string \<times> file_result) list"

text \<open>The two statements under \<^verbatim>\<open>try\<close>, up to the records one file appends.\<close>

fun try_body :: "file_result \<Rightarrow> py_exception + json list" where
  "try_body (OpenFails m) = Inl (OSError m)"
| "try_body (ParseFails m) = Inl (ValueError m)"
| "try_body (Parsed data) =
     (case get_items data of
        Inl e \<Rightarrow> Inl e
      | Inr items \<Rightarrow> py_iter items)"

record load_state =
  records :: "json list"
  printed :: "string list"

text \<open>
  One turn of the loop. Iterating a JSON value either raises before the first item
  or yields every item, so the records of a file are appended all or none. The
  handler catches every \<^verbatim>\<open>Exception\<close> and prints one line.
\<close>

definition load_file :: "load_state \<Rightarrow> string \<times> file_result \<Rightarrow> load_state" where
  "load_file st json_file =
     (case try_body (snd json_file) of
        Inr items \<Rightarrow> st\<lparr>records := foldl (\<lambda>a x. a @ [x]) (records st) items\<rparr>
      | Inl e \<Rightarrow>
          st\<lparr>printed := printed st @ [''Failed to load '' @ fst json_file @ '': '' @ str_exc e]\<rparr>)"

text \<open>
  \<^verbatim>\<open>pd.DataFrame(records)\<close> is pandas' constructor, which is not part of the
  sources. One thing it does is fixed here: when the first record is a dict, pandas
  finds the column labels by calling \<^verbatim>\<open>x.keys()\<close> on every record in turn, so the
  first record that is not a dict raises AttributeError. Everything else the
  constructor does with a list of records, the frame it builds or an exception of its
  own, is the parameter \<open>build\<close>; the statements below hold for every \<open>build\<close>.
\<close>

fun is_dict :: "json \<Rightarrow> bool" where
  "is_dict (JObj kvs) = True"
| "is_dict v = False"

fun first_non_dict :: "json list \<Rightarrow> json option" where
  "first_non_dict (JObj kvs # rest) = find (\<lambda>x. \<not> is_dict x) rest"
| "first_non_dict data = None"

definition pd_DataFrame ::
  "(json list \<Rightarrow> py_exception + 'df) \<Rightarrow> json list \<Rightarrow> py_exception + 'df" where
  "pd_DataFrame build data =
     (case first_non_dict data of
        Some x \<Rightarrow>
          Inl (AttributeError
                 (quoted (type_name x) @ '' object has no attribute '' @ quoted ''keys''))
      | None \<Rightarrow> build data)"

text \<open>
  The whole function. The loop runs over every file; then the constructor is called
  on the records, outside the \<^verbatim>\<open>try\<close>, so what it raises leaves the function. The
  result is what the function returns or raises, with the lines printed on the way.
\<close>

record 'df load_result =
  lines_printed :: "string list"
  returned :: "py_exception + 'df"

definition load_all_decisions ::
  "(json list \<Rightarrow> py_exception + 'df) \<Rightarrow> directory \<Rightarrow> 'df load_result" where
  "load_all_decisions build files =
     (let st = foldl load_file \<lparr>records = [], printed = []\<rparr> files
      in \<lparr>lines_printed = printed st, returned = pd_DataFrame build (records st)\<rparr>)"

text \<open>
  The \<^verbatim>\<open>items\<close> array of a file, as the description of the loader has it: the
  array under the key \<^verbatim>\<open>items\<close> of a file that opened and parsed to an object, and
  nothing for any other file.
\<close>

fun items_array :: "file_result \<Rightarrow> json list" where
  "items_array (Parsed (JObj kvs)) =
     (case map_of kvs ''items'' of Some (JArr xs) \<Rightarrow> xs | _ \<Rightarrow> [])"
| "items_array r = []"

text \<open>
  A file whose \<^verbatim>\<open>items\<close> is a str or a dict is iterated all the same (characters,
  keys); every other file contributes its \<^verbatim>\<open>items\<close> array or nothing.
\<close>

fun items_iterated_as_text :: "file_result \<Rightarrow> bool" where
  "items_iterated_as_text (Parsed (JObj kvs)) =
     (case map_of kvs ''items'' of
        Some (JStr s) \<Rightarrow> True
      | Some (JObj m) \<Rightarrow> True
      | _ \<Rightarrow> False)"
| "items_iterated_as_text r = False"

text \<open>What one file adds to the records and to the printed lines.\<close>

definition file_items :: "string \<times> file_result \<Rightarrow> json list" where
  "file_items json_file =
     (case try_body (snd json_file) of Inr items \<Rightarrow> items | Inl e \<Rightarrow> [])"

definition file_lines :: "string \<times> file_result \<Rightarrow> string list" where
  "file_lines json_file =
     (case try_body (snd json_file) of
        Inr items \<Rightarrow> []
      | Inl e \<Rightarrow> [''Failed to load '' @ fst json_file @ '': '' @ str_exc e])"

section \<open>Checkpoint Ledger\<close>

text \<open>
  Modelled from the spec: the status of a CheckpointEntry. The Checkpoint Ledger
  belongs to the scraping modules, which are not among the sources; the description
  of the data model gives the three values.
\<close>

datatype status = Pending | Done | FailedExhausted

text \<open>
  Modelled from the spec: the CheckpointEntry, one row per case identifier, with its
  status, attempt count, last-attempt timestamp and last error summary (nullable).
\<close>

record CheckpointEntry =
  status :: status
  attempt_count :: nat
  last_attempt :: nat
  last_error :: "string option"

type_synonym case_id = string

text \<open>
  Modelled from the spec: what \<^verbatim>\<open>load()\<close> of the Ledger returns, a mapping from case
  identifier to CheckpointEntry.
\<close>

type_synonym ledger = "case_id \<rightharpoonup> CheckpointEntry"

text \<open>
  Modelled from the spec: an id whose entry has status done or failed-exhausted. An
  id with no entry has neither.
\<close>

definition finished :: "ledger \<Rightarrow> case_id \<Rightarrow> bool" where
  "finished L i =
     (case L i of
        None \<Rightarrow> False
      | Some e \<Rightarrow> status e = Done \<or> status e = FailedExhausted)"

text \<open>
  Modelled from the spec: \<^verbatim>\<open>pending_cases(all_ids) -> set\<close> of the Ledger, which
  returns \<open>all_ids\<close> minus every id whose entry has status done or failed-exhausted.
\<close>

definition pending_cases :: "ledger \<Rightarrow> case_id set \<Rightarrow> case_id set" where
  "pending_cases L all_ids = all_ids - {i. finished L i}"

section \<open>The loops append in order\<close>

lemma foldl_append_each: "foldl (\<lambda>a x. a @ [x]) acc ys = acc @ ys"
  by (induction ys arbitrary: acc) simp_all

lemma flatten_loop_total:
  "(\<And>c. c \<in> set cs \<Longrightarrow> it c = Inr (f c)) \<Longrightarrow>
   flatten_loop it acc cs = Inr (acc @ concat (map f cs))"
  by (induction cs arbitrary: acc) (simp_all add: foldl_append_each)

lemma flatten_loop_raises:
  "(\<And>d. d \<in> set cs \<Longrightarrow> it d = Inr (f d)) \<Longrightarrow> it c = Inl e \<Longrightarrow>
   flatten_loop it acc (cs @ c # ds) = Inl e"
  by (induction cs arbitrary: acc) (simp_all add: foldl_append_each)

lemma flatten_loop_cells:
  "flatten_loop iter_cell acc (map ListCell rows) = Inr (acc @ concat rows)"
  by (induction rows arbitrary: acc) (simp_all add: foldl_append_each)

lemma flatten_loop_labels:
  "flatten_loop iter_cell acc (map (\<lambda>c. StrCell (f c)) cols)
     = Inr (acc @ concat (map (\<lambda>c. map (\<lambda>x. [x]) (f c)) cols))"
  by (induction cols arbitrary: acc) (simp_all add: foldl_append_each)

lemma set_label_characters:
  "cols \<noteq> [] \<Longrightarrow> \<forall>k \<in> set cols. fst k = name \<Longrightarrow>
   set (concat (map (\<lambda>k. map (\<lambda>x. [x]) (fst k)) cols)) = (\<lambda>x. [x]) ` set name"
  by (cases cols) auto

lemma getitem_repeated_label:
  "filter (\<lambda>c. fst c = name) df = c # d # cs \<Longrightarrow>
   getitem df name = Inr (SubFrame (c # d # cs))"
  by (simp add: getitem_def)

lemma filter_label:
  "filter (\<lambda>c. fst c = name) df = cols \<Longrightarrow> \<forall>k \<in> set cols. fst k = name"
  by auto

lemma load_file_eq:
  "load_file st jf =
     \<lparr>records = records st @ file_items jf, printed = printed st @ file_lines jf\<rparr>"
  by (cases "try_body (snd jf)")
     (simp_all add: load_file_def file_items_def file_lines_def foldl_append_each)

lemma foldl_load_file:
  "foldl load_file st files =
     \<lparr>records = records st @ concat (map file_items files),
      printed = printed st @ concat (map file_lines files)\<rparr>"
  by (induction files arbitrary: st) (simp_all add: load_file_eq)

lemma load_all_decisions_eq:
  "load_all_decisions build files =
     \<lparr>lines_printed = concat (map file_lines files),
      returned = pd_DataFrame build (concat (map file_items files))\<rparr>"
  by (simp add: load_all_decisions_def foldl_load_file)

lemma file_items_array:
  "\<not> items_iterated_as_text (snd jf) \<Longrightarrow> file_items jf = items_array (snd jf)"
proof (cases jf)
  case (Pair p r)
  show "\<not> items_iterated_as_text (snd jf) \<Longrightarrow> file_items jf = items_array (snd jf)"
  proof (cases r)
    case (Parsed data)
    assume "\<not> items_iterated_as_text (snd jf)"
    with Pair Parsed show ?thesis
      by (cases data) (simp_all add: file_items_def split: option.splits json.splits)
  qed (simp_all add: Pair file_items_def)
qed

lemma file_items_failure:
  "r = OpenFails m \<or> r = ParseFails m \<Longrightarrow> file_items (p, r) = []"
  by (auto simp: file_items_def)

lemma file_lines_failure:
  "file_lines (p, OpenFails m) = [''Failed to load '' @ p @ '': '' @ m]"
  "file_lines (p, ParseFails m) = [''Failed to load '' @ p @ '': '' @ m]"
  by (simp_all add: file_lines_def)

lemma file_no_items:
  "map_of kvs ''items'' = None \<Longrightarrow> file_items (p, Parsed (JObj kvs)) = []"
  "map_of kvs ''items'' = None \<Longrightarrow> file_lines (p, Parsed (JObj kvs)) = []"
  by (simp_all add: file_items_def file_lines_def)

lemma pd_DataFrame_dicts:
  "list_all is_dict data \<Longrightarrow> pd_DataFrame build data = build data"
proof (cases data)
  case Nil
  then show ?thesis by (simp add: pd_DataFrame_def)
next
  case (Cons r rest)
  assume "list_all is_dict data"
  with Cons have "is_dict r" and rest: "\<forall>x \<in> set rest. is_dict x"
    by (simp_all add: list_all_iff)
  from rest have "find (\<lambda>x. \<not> is_dict x) rest = None"
    by (simp add: find_None_iff)
  with Cons \<open>is_dict r\<close> show ?thesis
    by (cases r) (simp_all add: pd_DataFrame_def)
qed

lemma pd_DataFrame_raises:
  "is_dict r \<Longrightarrow> x \<in> set rest \<Longrightarrow> \<not> is_dict x \<Longrightarrow> isl (pd_DataFrame build (r # rest))"
proof -
  assume r: "is_dict r" and x: "x \<in> set rest" "\<not> is_dict x"
  from x have "find (\<lambda>x. \<not> is_dict x) rest \<noteq> None"
    by (auto simp: find_None_iff)
  then obtain y where "find (\<lambda>x. \<not> is_dict x) rest = Some y"
    by blast
  with r show ?thesis
    by (cases r) (simp_all add: pd_DataFrame_def)
qed

section \<open>Loading the pages\<close>

text \<open>
  C9. (1) When no page holds a str or a dict under \<^verbatim>\<open>items\<close>,
  \<open>load_all_decisions\<close> returns what \<^verbatim>\<open>pd.DataFrame\<close> gives for the \<^verbatim>\<open>items\<close>
  arrays of the pages that opened and parsed, one after the other in the order of
  the files: a frame, or the exception the constructor raises. (2) A file that fails
  to open or to parse has its line \<^verbatim>\<open>Failed to load <path>: <error>\<close> printed.
  (3) Such a file is skipped: the function returns what it returns for the directory
  without it, so the files before and after it are still loaded. (4) A page that
  parses to an object without the key \<^verbatim>\<open>items\<close> adds no record and prints nothing:
  the result is that of the directory without it.
\<close>

theorem load_all_decisions_items:
  fixes files before after before' after' :: directory
  shows
  "((\<forall>jf \<in> set files. \<not> items_iterated_as_text (snd jf)) \<longrightarrow>
      returned (load_all_decisions build files) =
      pd_DataFrame build (concat (map (\<lambda>jf. items_array (snd jf)) files)))
   \<and> ((p, OpenFails m) \<in> set files \<or> (p, ParseFails m) \<in> set files \<longrightarrow>
        (''Failed to load '' @ p @ '': '' @ m)
          \<in> set (lines_printed (load_all_decisions build files)))
   \<and> (r = OpenFails e \<or> r = ParseFails e \<longrightarrow>
        returned (load_all_decisions build (before @ (q, r) # after)) =
        returned (load_all_decisions build (before @ after)))
   \<and> (map_of kvs ''items'' = None \<longrightarrow>
        load_all_decisions build (before' @ (q', Parsed (JObj kvs)) # after') =
        load_all_decisions build (before' @ after'))"
proof (intro conjI impI)
  assume "\<forall>jf \<in> set files. \<not> items_iterated_as_text (snd jf)"
  then have "map file_items files = map (\<lambda>jf. items_array (snd jf)) files"
    by (simp add: file_items_array)
  then have "concat (map file_items files) = concat (map (\<lambda>jf. items_array (snd jf)) files)"
    by (rule arg_cong)
  then show "returned (load_all_decisions build files) =
             pd_DataFrame build (concat (map (\<lambda>jf. items_array (snd jf)) files))"
    by (simp only: load_all_decisions_eq load_result.simps)
next
  assume "(p, OpenFails m) \<in> set files \<or> (p, ParseFails m) \<in> set files"
  then obtain jf where "jf \<in> set files" "file_lines jf = [''Failed to load '' @ p @ '': '' @ m]"
    using file_lines_failure by blast
  then show "(''Failed to load '' @ p @ '': '' @ m)
               \<in> set (lines_printed (load_all_decisions build files))"
    by (force simp: load_all_decisions_eq)
next
  assume "r = OpenFails e \<or> r = ParseFails e"
  then show "returned (load_all_decisions build (before @ (q, r) # after)) =
             returned (load_all_decisions build (before @ after))"
    by (simp add: load_all_decisions_eq file_items_failure)
next
  assume "map_of kvs ''items'' = None"
  then show "load_all_decisions build (before' @ (q', Parsed (JObj kvs)) # after') =
             load_all_decisions build (before' @ after')"
    by (simp add: load_all_decisions_eq file_no_items)
qed

text \<open>
  The theorem at a directory of four pages: two records in the first, the second
  unreadable, the third not JSON, the fourth an object without \<^verbatim>\<open>items\<close>. Both
  records are dicts, so the function returns what the constructor builds from them.
\<close>

theorem load_all_decisions_items_witness:
  "\<forall>build.
   list_all (\<lambda>jf. \<not> items_iterated_as_text (snd jf))
     [(''raw/page1.json'', Parsed (JObj [(''items'',
          JArr [JObj [(''soud'', JStr ''OS Praha 1'')], JObj [(''soud'', JStr ''KS Brno'')]])])),
      (''raw/page2.json'', OpenFails ''Permission denied''),
      (''raw/page3.json'', ParseFails ''Expecting value''),
      (''raw/page4.json'', Parsed (JObj [(''total'', JInt 0)]))]
   \<and> returned (load_all_decisions build
     [(''raw/page1.json'', Parsed (JObj [(''items'',
          JArr [JObj [(''soud'', JStr ''OS Praha 1'')], JObj [(''soud'', JStr ''KS Brno'')]])])),
      (''raw/page2.json'', OpenFails ''Permission denied''),
      (''raw/page3.json'', ParseFails ''Expecting value''),
      (''raw/page4.json'', Parsed (JObj [(''total'', JInt 0)]))])
     = build [JObj [(''soud'', JStr ''OS Praha 1'')], JObj [(''soud'', JStr ''KS Brno'')]]
   \<and> ''Failed to load raw/page2.json: Permission denied''
       \<in> set (lines_printed (load_all_decisions build
     [(''raw/page1.json'', Parsed (JObj [(''items'',
          JArr [JObj [(''soud'', JStr ''OS Praha 1'')], JObj [(''soud'', JStr ''KS Brno'')]])])),
      (''raw/page2.json'', OpenFails ''Permission denied''),
      (''raw/page3.json'', ParseFails ''Expecting value''),
      (''raw/page4.json'', Parsed (JObj [(''total'', JInt 0)]))]))
   \<and> returned (load_all_decisions build
     ([(''raw/page1.json'', Parsed (JObj [(''items'', JArr [JInt 7])]))]
        @ (''raw/page3.json'', ParseFails ''Expecting value'')
        # [(''raw/page5.json'', Parsed (JObj [(''items'', JArr [JInt 8])]))]))
     = returned (load_all_decisions build
     ([(''raw/page1.json'', Parsed (JObj [(''items'', JArr [JInt 7])]))]
        @ [(''raw/page5.json'', Parsed (JObj [(''items'', JArr [JInt 8])]))]))
   \<and> load_all_decisions build
     ([(''raw/page1.json'', Parsed (JObj [(''items'', JArr [JInt 7])]))]
        @ (''raw/page4.json'', Parsed (JObj [(''total'', JInt 0)]))
        # [(''raw/page5.json'', Parsed (JObj [(''items'', JArr [JInt 8])]))])
     = load_all_decisions build
     ([(''raw/page1.json'', Parsed (JObj [(''items'', JArr [JInt 7])]))]
        @ [(''raw/page5.json'', Parsed (JObj [(''items'', JArr [JInt 8])]))])"
proof
  fix build :: "json list \<Rightarrow> py_exception + 'df"
  show "list_all (\<lambda>jf. \<not> items_iterated_as_text (snd jf))
     [(''raw/page1.json'', Parsed (JObj [(''items'',
          JArr [JObj [(''soud'', JStr ''OS Praha 1'')], JObj [(''soud'', JStr ''KS Brno'')]])])),
      (''raw/page2.json'', OpenFails ''Permission denied''),
      (''raw/page3.json'', ParseFails ''Expecting value''),
      (''raw/page4.json'', Parsed (JObj [(''total'', JInt 0)]))]
   \<and> returned (load_all_decisions build
     [(''raw/page1.json'', Parsed (JObj [(''items'',
          JArr [JObj [(''soud'', JStr ''OS Praha 1'')], JObj [(''soud'', JStr ''KS Brno'')]])])),
      (''raw/page2.json'', OpenFails ''Permission denied''),
      (''raw/page3.json'', ParseFails ''Expecting value''),
      (''raw/page4.json'', Parsed (JObj [(''total'', JInt 0)]))])
     = build [JObj [(''soud'', JStr ''OS Praha 1'')], JObj [(''soud'', JStr ''KS Brno'')]]
   \<and> ''Failed to load raw/page2.json: Permission denied''
       \<in> set (lines_printed (load_all_decisions build
     [(''raw/page1.json'', Parsed (JObj [(''items'',
          JArr [JObj [(''soud'', JStr ''OS Praha 1'')], JObj [(''soud'', JStr ''KS Brno'')]])])),
      (''raw/page2.json'', OpenFails ''Permission denied''),
      (''raw/page3.json'', ParseFails ''Expecting value''),
      (''raw/page4.json'', Parsed (JObj [(''total'', JInt 0)]))]))
   \<and> returned (load_all_decisions build
     ([(''raw/page1.json'', Parsed (JObj [(''items'', JArr [JInt 7])]))]
        @ (''raw/page3.json'', ParseFails ''Expecting value'')
        # [(''raw/page5.json'', Parsed (JObj [(''items'', JArr [JInt 8])]))]))
     = returned (load_all_decisions build
     ([(''raw/page1.json'', Parsed (JObj [(''items'', JArr [JInt 7])]))]
        @ [(''raw/page5.json'', Parsed (JObj [(''items'', JArr [JInt 8])]))]))
   \<and> load_all_decisions build
     ([(''raw/page1.json'', Parsed (JObj [(''items'', JArr [JInt 7])]))]
        @ (''raw/page4.json'', Parsed (JObj [(''total'', JInt 0)]))
        # [(''raw/page5.json'', Parsed (JObj [(''items'', JArr [JInt 8])]))])
     = load_all_decisions build
     ([(''raw/page1.json'', Parsed (JObj [(''items'', JArr [JInt 7])]))]
        @ [(''raw/page5.json'', Parsed (JObj [(''items'', JArr [JInt 8])]))])"
    using load_all_decisions_items
      [of "[(''raw/page1.json'', Parsed (JObj [(''items'',
            JArr [JObj [(''soud'', JStr ''OS Praha 1'')], JObj [(''soud'', JStr ''KS Brno'')]])])),
        (''raw/page2.json'', OpenFails ''Permission denied''),
        (''raw/page3.json'', ParseFails ''Expecting value''),
        (''raw/page4.json'', Parsed (JObj [(''total'', JInt 0)]))]"
        build
        "''raw/page2.json''" "''Permission denied''"
        "ParseFails ''Expecting value''" "''Expecting value''"
        "[(''raw/page1.json'', Parsed (JObj [(''items'', JArr [JInt 7])]))]"
        "''raw/page3.json''"
        "[(''raw/page5.json'', Parsed (JObj [(''items'', JArr [JInt 8])]))]"
        "[(''total'', JInt 0)]"
        "[(''raw/page1.json'', Parsed (JObj [(''items'', JArr [JInt 7])]))]"
        "''raw/page4.json''"
        "[(''raw/page5.json'', Parsed (JObj [(''items'', JArr [JInt 8])]))]"]
    by (simp add: pd_DataFrame_def)
qed

text \<open>
  A frame is not returned for every directory: a page that opens and parses, with
  an object and then a null in its \<^verbatim>\<open>items\<close> array, makes the constructor raise,
  whatever it does elsewhere, and nothing is printed for the page.
\<close>

theorem load_all_decisions_null_item_counterexample:
  "\<forall>build.
     load_all_decisions build
       [(''raw/page1.json'',
         Parsed (JObj [(''items'', JArr [JObj [(''soud'', JStr ''KS Brno'')], JNull])]))]
     = \<lparr>lines_printed = [],
        returned = Inl (AttributeError
          (quoted ''NoneType'' @ '' object has no attribute '' @ quoted ''keys''))\<rparr>"
  by (simp add: load_all_decisions_def load_file_def pd_DataFrame_def)

section \<open>Flattening and the distinct references\<close>

text \<open>
  C10. For every list of lists \<open>xss\<close>, \<open>flatten\<close> returns the
  concatenation of the sublists from left to right: every element, in order, as often
  as it occurs. So when exactly one column of the frame is labelled
  \<^verbatim>\<open>zminenaUstanoveni\<close> and every row holds a list in it, \<open>extract_unique_refs\<close>
  returns exactly the set of the strings that occur in the list of some row.
\<close>

theorem flatten_concat_unique_refs:
  "flatten iter_list xss = Inr (concat xss)
   \<and> (filter (\<lambda>c. fst c = ''zminenaUstanoveni'') df
          = [(''zminenaUstanoveni'', map ListCell rows)] \<longrightarrow>
        extract_unique_refs df = Inr (\<Union> (set ` set rows)))"
proof
  show "flatten iter_list xss = Inr (concat xss)"
    using flatten_loop_total [of xss iter_list "\<lambda>xs. xs" "[]"]
    by (simp add: flatten_def iter_list_def)
next
  show "filter (\<lambda>c. fst c = ''zminenaUstanoveni'') df
          = [(''zminenaUstanoveni'', map ListCell rows)] \<longrightarrow>
        extract_unique_refs df = Inr (\<Union> (set ` set rows))"
  proof
    assume col: "filter (\<lambda>c. fst c = ''zminenaUstanoveni'') df
                   = [(''zminenaUstanoveni'', map ListCell rows)]"
    have "flatten iter_cell (map ListCell rows) = Inr (concat rows)"
      by (simp add: flatten_def flatten_loop_cells)
    with col show "extract_unique_refs df = Inr (\<Union> (set ` set rows))"
      by (simp add: extract_unique_refs_def getitem_def)
  qed
qed

text \<open>
  The theorem at a frame of three rows and two columns; the second citation occurs
  in two rows and once in the set.
\<close>

theorem flatten_concat_unique_refs_witness:
  "flatten iter_list [[1, 2], [], [2, 3 :: nat]] = Inr [1, 2, 2, 3]
   \<and> filter (\<lambda>c. fst c = ''zminenaUstanoveni'')
        [(''klicovaSlova'', [ListCell [''najem''], ListCell [], ListCell [''nahrada skody'']]),
         (''zminenaUstanoveni'',
            [ListCell [''par. 2235 z. c. 89/2012 Sb.'', ''par. 142 z. c. 99/1963 Sb.''],
             ListCell [],
             ListCell [''par. 142 z. c. 99/1963 Sb.'']])]
      = [(''zminenaUstanoveni'', map ListCell
                [[''par. 2235 z. c. 89/2012 Sb.'', ''par. 142 z. c. 99/1963 Sb.''],
                 [],
                 [''par. 142 z. c. 99/1963 Sb.'']])]
   \<and> extract_unique_refs
        [(''klicovaSlova'', [ListCell [''najem''], ListCell [], ListCell [''nahrada skody'']]),
         (''zminenaUstanoveni'',
            [ListCell [''par. 2235 z. c. 89/2012 Sb.'', ''par. 142 z. c. 99/1963 Sb.''],
             ListCell [],
             ListCell [''par. 142 z. c. 99/1963 Sb.'']])]
      = Inr {''par. 2235 z. c. 89/2012 Sb.'', ''par. 142 z. c. 99/1963 Sb.''}"
  using flatten_concat_unique_refs
    [of "[[1, 2], [], [2, 3 :: nat]]"
        "[(''klicovaSlova'', [ListCell [''najem''], ListCell [], ListCell [''nahrada skody'']]),
          (''zminenaUstanoveni'',
             [ListCell [''par. 2235 z. c. 89/2012 Sb.'', ''par. 142 z. c. 99/1963 Sb.''],
              ListCell [],
              ListCell [''par. 142 z. c. 99/1963 Sb.'']])]"
        "[[''par. 2235 z. c. 89/2012 Sb.'', ''par. 142 z. c. 99/1963 Sb.''],
          [],
          [''par. 142 z. c. 99/1963 Sb.'']]"]
  by auto

text \<open>
  Outside the hypothesis the function does not return that set. A frame without the
  column (the frame of an empty directory has none) gives KeyError; a row with NaN or
  \<^verbatim>\<open>None\<close> in place of a list gives TypeError, whatever the other rows hold; and
  when several columns carry the label, the selection is a frame, its list is the
  labels, and the result is the set of the characters of the label.
\<close>

lemma extract_unique_refs_no_column:
  "''zminenaUstanoveni'' \<notin> fst ` set df \<Longrightarrow>
   extract_unique_refs df = Inl (KeyError (quoted ''zminenaUstanoveni''))"
proof -
  assume "''zminenaUstanoveni'' \<notin> fst ` set df"
  then have "filter (\<lambda>c. fst c = ''zminenaUstanoveni'') df = []"
    by (force simp: filter_empty_conv)
  then show ?thesis
    by (simp add: extract_unique_refs_def getitem_def)
qed

lemma extract_unique_refs_nan:
  "filter (\<lambda>c. fst c = ''zminenaUstanoveni'') df
     = [(''zminenaUstanoveni'', map ListCell rows @ NaN # cells)] \<Longrightarrow>
   extract_unique_refs df = Inl (TypeError (quoted ''float'' @ '' object is not iterable''))"
proof -
  assume col: "filter (\<lambda>c. fst c = ''zminenaUstanoveni'') df
                 = [(''zminenaUstanoveni'', map ListCell rows @ NaN # cells)]"
  have "flatten_loop iter_cell [] (map ListCell rows @ NaN # cells)
          = Inl (TypeError (quoted ''float'' @ '' object is not iterable''))"
    by (rule flatten_loop_raises [where f = "\<lambda>c. case c of ListCell xs \<Rightarrow> xs | _ \<Rightarrow> []"]) auto
  with col show ?thesis
    by (simp add: extract_unique_refs_def getitem_def flatten_def)
qed

lemma extract_unique_refs_none:
  "filter (\<lambda>c. fst c = ''zminenaUstanoveni'') df
     = [(''zminenaUstanoveni'', map ListCell rows @ NoneCell # cells)] \<Longrightarrow>
   extract_unique_refs df
     = Inl (TypeError (quoted ''NoneType'' @ '' object is not iterable''))"
proof -
  assume col: "filter (\<lambda>c. fst c = ''zminenaUstanoveni'') df
                 = [(''zminenaUstanoveni'', map ListCell rows @ NoneCell # cells)]"
  have "flatten_loop iter_cell [] (map ListCell rows @ NoneCell # cells)
          = Inl (TypeError (quoted ''NoneType'' @ '' object is not iterable''))"
    by (rule flatten_loop_raises [where f = "\<lambda>c. case c of ListCell xs \<Rightarrow> xs | _ \<Rightarrow> []"]) auto
  with col show ?thesis
    by (simp add: extract_unique_refs_def getitem_def flatten_def)
qed

lemma extract_unique_refs_repeated_label:
  "filter (\<lambda>c. fst c = ''zminenaUstanoveni'') df = c # d # cs \<Longrightarrow>
   extract_unique_refs df = Inr ((\<lambda>x. [x]) ` set ''zminenaUstanoveni'')"
proof -
  assume sel: "filter (\<lambda>c. fst c = ''zminenaUstanoveni'') df = c # d # cs"
  have sub: "getitem df ''zminenaUstanoveni'' = Inr (SubFrame (c # d # cs))"
    using sel by (rule getitem_repeated_label)
  have lab: "\<forall>k \<in> set (c # d # cs). fst k = ''zminenaUstanoveni''"
    using sel by (rule filter_label)
  have fl: "flatten iter_cell (py_list (SubFrame (c # d # cs)))
          = Inr (concat (map (\<lambda>k. map (\<lambda>x. [x]) (fst k)) (c # d # cs)))"
    unfolding flatten_def py_list.simps by (simp only: flatten_loop_labels append_Nil)
  have chars: "set (concat (map (\<lambda>k. map (\<lambda>x. [x]) (fst k)) (c # d # cs)))
          = (\<lambda>x. [x]) ` set ''zminenaUstanoveni''"
    using lab by (intro set_label_characters) simp_all
  show ?thesis
    unfolding extract_unique_refs_def by (simp only: sub fl chars sum.case)
qed

text \<open>
  The set is not returned for every frame: at the frame the loader builds from two
  records of which the second has no key \<^verbatim>\<open>zminenaUstanoveni\<close>, the strings in the
  rows' lists form a set of one element, and the function raises.
\<close>

theorem extract_unique_refs_nan_counterexample:
  "extract_unique_refs
     [(''soud'', [StrCell ''OS Praha 1'', StrCell ''KS Brno'']),
      (''zminenaUstanoveni'', [ListCell [''par. 142 z. c. 99/1963 Sb.''], NaN])]
   = Inl (TypeError (quoted ''float'' @ '' object is not iterable''))"
  using extract_unique_refs_nan
    [of "[(''soud'', [StrCell ''OS Praha 1'', StrCell ''KS Brno'']),
          (''zminenaUstanoveni'', [ListCell [''par. 142 z. c. 99/1963 Sb.''], NaN])]"
        "[[''par. 142 z. c. 99/1963 Sb.'']]" "[]"]
  by simp

section \<open>The pending cases of the Ledger\<close>

text \<open>
  C7. For every set \<open>all_ids\<close> and every state \<open>L\<close> of the Ledger, \<open>pending_cases\<close>
  is \<open>all_ids\<close> without the ids whose entry has status done or failed-exhausted. An
  id of \<open>all_ids\<close> with no entry is in the result, and the result holds exactly the
  ids of \<open>all_ids\<close> that have no entry or an entry with status pending.
\<close>

theorem pending_cases_minus_finished:
  "pending_cases L all_ids =
     all_ids - {i. \<exists>e. L i = Some e \<and> (status e = Done \<or> status e = FailedExhausted)}
   \<and> (i \<in> all_ids \<and> L i = None \<longrightarrow> i \<in> pending_cases L all_ids)
   \<and> (i \<in> pending_cases L all_ids \<longleftrightarrow>
        i \<in> all_ids \<and> (L i = None \<or> (\<exists>e. L i = Some e \<and> status e = Pending)))"
proof (intro conjI)
  have fin: "finished L j \<longleftrightarrow>
      (\<exists>e. L j = Some e \<and> (status e = Done \<or> status e = FailedExhausted))" for j
    by (simp add: finished_def split: option.splits)
  show "pending_cases L all_ids =
     all_ids - {i. \<exists>e. L i = Some e \<and> (status e = Done \<or> status e = FailedExhausted)}"
    by (simp add: pending_cases_def fin)
  show "i \<in> all_ids \<and> L i = None \<longrightarrow> i \<in> pending_cases L all_ids"
    by (simp add: pending_cases_def finished_def)
  show "i \<in> pending_cases L all_ids \<longleftrightarrow>
        i \<in> all_ids \<and> (L i = None \<or> (\<exists>e. L i = Some e \<and> status e = Pending))"
  proof (cases "L i")
    case None
    then show ?thesis by (simp add: pending_cases_def finished_def)
  next
    case (Some e)
    then show ?thesis by (cases "status e") (simp_all add: pending_cases_def finished_def)
  qed
qed

text \<open>
  The theorem at a Ledger with one entry of each status, asked about four ids: the
  pending one and the one without an entry remain.
\<close>

theorem pending_cases_minus_finished_witness:
  "''D'' \<in> {''A'', ''B'', ''C'', ''D''}
   \<and> [''A'' \<mapsto> \<lparr>status = Done, attempt_count = 1, last_attempt = 10, last_error = None\<rparr>,
       ''B'' \<mapsto> \<lparr>status = Pending, attempt_count = 2, last_attempt = 11,
                 last_error = Some ''timeout''\<rparr>,
       ''C'' \<mapsto> \<lparr>status = FailedExhausted, attempt_count = 3, last_attempt = 12,
                 last_error = Some ''not found''\<rparr>] ''D'' = None
   \<and> pending_cases
       [''A'' \<mapsto> \<lparr>status = Done, attempt_count = 1, last_attempt = 10, last_error = None\<rparr>,
        ''B'' \<mapsto> \<lparr>status = Pending, attempt_count = 2, last_attempt = 11,
                  last_error = Some ''timeout''\<rparr>,
        ''C'' \<mapsto> \<lparr>status = FailedExhausted, attempt_count = 3, last_attempt = 12,
                  last_error = Some ''not found''\<rparr>]
       {''A'', ''B'', ''C'', ''D''} = {''B'', ''D''}
   \<and> ''D'' \<in> pending_cases
       [''A'' \<mapsto> \<lparr>status = Done, attempt_count = 1, last_attempt = 10, last_error = None\<rparr>,
        ''B'' \<mapsto> \<lparr>status = Pending, attempt_count = 2, last_attempt = 11,
                  last_error = Some ''timeout''\<rparr>,
        ''C'' \<mapsto> \<lparr>status = FailedExhausted, attempt_count = 3, last_attempt = 12,
                  last_error = Some ''not found''\<rparr>]
       {''A'', ''B'', ''C'', ''D''}"
  using pending_cases_minus_finished
    [of "[''A'' \<mapsto> \<lparr>status = Done, attempt_count = 1, last_attempt = 10, last_error = None\<rparr>,
          ''B'' \<mapsto> \<lparr>status = Pending, attempt_count = 2, last_attempt = 11,
                    last_error = Some ''timeout''\<rparr>,
          ''C'' \<mapsto> \<lparr>status = FailedExhausted, attempt_count = 3, last_attempt = 12,
                    last_error = Some ''not found''\<rparr>]"
        "{''A'', ''B'', ''C'', ''D''}" "''D''"]
  by (auto split: if_splits)

end
